theory Spec2Isabelle
  imports Complex_Main
begin

section \<open>JavaScript values\<close>

text \<open>
  The script in \<^verbatim>\<open>static/script.js\<close> receives its data from \<^verbatim>\<open>response.json()\<close>
  and branches on it with \<^verbatim>\<open>===\<close>, \<^verbatim>\<open>!==\<close> and truthiness tests. The fields it
  branches on are therefore kept as raw JavaScript primitives rather than typed values:
  a number is a finite value, an infinity or NaN; a field can also be \<^verbatim>\<open>null\<close>, a boolean,
  a string, or \<^verbatim>\<open>undefined\<close> when the key is missing. Finite numbers are represented by
  their exact value (signed zeros are not distinguished).
\<close>

datatype jsnum = Fin rat | PosInf | NegInf | NaN

datatype jsval = JUndefined | JNull | JBool bool | JNum jsnum | JStr string

text \<open>ToBoolean: what \<^verbatim>\<open>if (v)\<close>, \<^verbatim>\<open>v ? a : b\<close> and \<^verbatim>\<open>v || d\<close> test.\<close>

fun truthy :: "jsval \<Rightarrow> bool" where
  "truthy JUndefined = False"
| "truthy JNull = False"
| "truthy (JBool b) = b"
| "truthy (JNum n) = (n \<noteq> NaN \<and> n \<noteq> Fin 0)"
| "truthy (JStr s) = (s \<noteq> [])"

section \<open>Steps of a hand and the cards extracted from them\<close>

text \<open>
  One element of \<^verbatim>\<open>data.steps\<close>. The script compares \<^verbatim>\<open>step.actor\<close> with string
  literals, tests \<^verbatim>\<open>step.card\<close> against \<^verbatim>\<open>null\<close> and for truthiness, and only
  interpolates the other fields.
\<close>

record step =
  actor :: string
  action :: string
  card :: jsval
  step_player_total :: int
  step_dealer_total :: int
  step_note :: "string option"

text \<open>
  The body of the \<^verbatim>\<open>steps.forEach\<close> callback of \<^verbatim>\<open>displayGameTable\<close> (lines 169-177),
  acting on the two arrays \<^verbatim>\<open>playerCards\<close> and \<^verbatim>\<open>dealerCards\<close>; \<^verbatim>\<open>push\<close> appends.
\<close>

fun extract_step :: "jsval list \<times> jsval list \<Rightarrow> step \<Rightarrow> jsval list \<times> jsval list" where
  "extract_step (playerCards, dealerCards) st =
     (if card st \<noteq> JNull then
        (if actor st = ''PLAYER'' then (playerCards @ [card st], dealerCards)
         else if actor st = ''SYSTEM'' \<or> actor st = ''DEALER'' then (playerCards, dealerCards @ [card st])
         else (playerCards, dealerCards))
      else (playerCards, dealerCards))"

text \<open>Both arrays start empty (lines 166-167) and the callback runs over the steps in order.\<close>

definition extract_cards :: "step list \<Rightarrow> jsval list \<times> jsval list" where
  "extract_cards steps = foldl extract_step ([], []) steps"

section \<open>Numbers as text\<close>

text \<open>
  Template literals and string concatenation turn integers into decimal text.
  \<open>show_int\<close> is JavaScript's conversion for the integers the service sends
  (below \<open>10^21\<close> in magnitude, where JavaScript switches to exponent notation).
\<close>

definition digit_char :: "nat \<Rightarrow> char" where
  "digit_char d = ''0123456789'' ! d"

fun show_nat :: "nat \<Rightarrow> string" where
  "show_nat n = (if n < 10 then [digit_char n] else show_nat (n div 10) @ [digit_char (n mod 10)])"

declare show_nat.simps [simp del]

definition show_int :: "int \<Rightarrow> string" where
  "show_int i = (if i < 0 then ''-'' @ show_nat (nat (- i)) else show_nat (nat i))"

text \<open>
  \<^verbatim>\<open>Number.prototype.toFixed(f)\<close> on a finite non-negative value below \<open>10^21\<close>: the
  integer \<open>n\<close> with \<open>n / 10^f\<close> closest to \<open>x\<close> (the larger one on a tie), written in
  decimal, padded with zeros to \<open>f + 1\<close> digits, the point before the last \<open>f\<close>.
\<close>

definition fixed_digits :: "nat \<Rightarrow> rat \<Rightarrow> string" where
  "fixed_digits f x =
     (let n = nat \<lfloor>x * 10 ^ f + 1 / 2\<rfloor>;
          m = show_nat n;
          m' = (if length m \<le> f then replicate (f + 1 - length m) CHR ''0'' @ m else m);
          k = length m'
      in if f = 0 then m' else take (k - f) m' @ ''.'' @ drop (k - f) m')"

text \<open>
  \<^verbatim>\<open>toFixed\<close> on any number: a value that is not finite is rendered by its name; a
  negative value gets a minus sign in front of the digits of its magnitude. (From
  \<open>10^21\<close> on JavaScript returns exponent notation instead; the model does not cover
  that range.)
\<close>

fun toFixed :: "nat \<Rightarrow> jsnum \<Rightarrow> string" where
  "toFixed f NaN = ''NaN''"
| "toFixed f PosInf = ''Infinity''"
| "toFixed f NegInf = ''-Infinity''"
| "toFixed f (Fin x) = (if x < 0 then ''-'' @ fixed_digits f (- x) else fixed_digits f x)"

text \<open>
  The operators \<^verbatim>\<open>/\<close> and \<^verbatim>\<open>*\<close> on numbers, with the IEEE results for zero
  divisors, infinities and NaN. A finite result is the exact quotient or product.
\<close>

fun js_div :: "jsnum \<Rightarrow> jsnum \<Rightarrow> jsnum" where
  "js_div NaN y = NaN"
| "js_div x NaN = NaN"
| "js_div (Fin a) (Fin b) =
     (if b = 0 then (if a = 0 then NaN else if 0 < a then PosInf else NegInf) else Fin (a / b))"
| "js_div (Fin a) PosInf = Fin 0"
| "js_div (Fin a) NegInf = Fin 0"
| "js_div PosInf (Fin b) = (if 0 \<le> b then PosInf else NegInf)"
| "js_div NegInf (Fin b) = (if 0 \<le> b then NegInf else PosInf)"
| "js_div PosInf y = NaN"
| "js_div NegInf y = NaN"

fun js_mul :: "jsnum \<Rightarrow> jsnum \<Rightarrow> jsnum" where
  "js_mul NaN y = NaN"
| "js_mul x NaN = NaN"
| "js_mul (Fin a) (Fin b) = Fin (a * b)"
| "js_mul (Fin a) PosInf = (if a = 0 then NaN else if 0 < a then PosInf else NegInf)"
| "js_mul (Fin a) NegInf = (if a = 0 then NaN else if 0 < a then NegInf else PosInf)"
| "js_mul PosInf (Fin b) = (if b = 0 then NaN else if 0 < b then PosInf else NegInf)"
| "js_mul NegInf (Fin b) = (if b = 0 then NaN else if 0 < b then NegInf else PosInf)"
| "js_mul PosInf PosInf = PosInf"
| "js_mul PosInf NegInf = NegInf"
| "js_mul NegInf PosInf = NegInf"
| "js_mul NegInf NegInf = PosInf"

section \<open>Text as numbers: parseInt\<close>

text \<open>
  \<^verbatim>\<open>parseInt(string)\<close> without a radix: leading white space is skipped (here the
  ASCII white space characters), one sign is read, a prefix \<^verbatim>\<open>0x\<close> or \<^verbatim>\<open>0X\<close> selects
  radix 16, and the longest run of digits of the radix is the value; with no digit the
  result is NaN, here \<open>None\<close>. The value is the exact integer (JavaScript rounds it to
  a double beyond \<open>2^53\<close>).
\<close>

definition is_ws :: "char \<Rightarrow> bool" where
  "is_ws c = (c \<in> set [CHR '' '', CHR 0x09, CHR 0x0A, CHR 0x0B, CHR 0x0C, CHR 0x0D])"

fun find_pos :: "'a \<Rightarrow> 'a list \<Rightarrow> nat option" where
  "find_pos x [] = None"
| "find_pos x (y # ys) = (if x = y then Some 0 else map_option Suc (find_pos x ys))"

definition digit_of :: "char \<Rightarrow> nat option" where
  "digit_of c =
     (case find_pos c ''0123456789abcdefghijklmnopqrstuvwxyz'' of
        Some d \<Rightarrow> Some d
      | None \<Rightarrow> map_option (\<lambda>d. d + 10) (find_pos c ''ABCDEFGHIJKLMNOPQRSTUVWXYZ''))"

definition is_digit :: "nat \<Rightarrow> char \<Rightarrow> bool" where
  "is_digit R c = (case digit_of c of Some d \<Rightarrow> d < R | None \<Rightarrow> False)"

definition digits_value :: "nat \<Rightarrow> string \<Rightarrow> nat" where
  "digits_value R Z = foldl (\<lambda>acc c. acc * R + (case digit_of c of Some d \<Rightarrow> d | None \<Rightarrow> 0)) 0 Z"

definition parseInt :: "string \<Rightarrow> int option" where
  "parseInt inputString =
     (let S = dropWhile is_ws inputString;
          sign = (if take 1 S = ''-'' then - 1 else 1);
          S1 = (if take 1 S = ''+'' \<or> take 1 S = ''-'' then drop 1 S else S);
          hex = (take 2 S1 = ''0x'' \<or> take 2 S1 = ''0X'');
          R = (if hex then 16 else 10);
          S2 = (if hex then drop 2 S1 else S1);
          Z = takeWhile (is_digit R) S2
      in if Z = [] then None else Some (sign * int (digits_value R Z)))"


section \<open>Markup and the page\<close>

text \<open>
  What the script assigns to \<^verbatim>\<open>innerHTML\<close> is kept as the tree the template literal
  describes: elements with their attributes and children, and the text between them
  (interpolated strings exactly, white space around the markup dropped). Strings are
  byte strings; a character outside ASCII is its UTF-8 bytes.
\<close>

datatype html = Text string | Elem string "(string \<times> string) list" "html list"

definition emoji_ace :: string where
  "emoji_ace = [CHR 0xF0, CHR 0x9F, CHR 0x85, CHR 0xB0, CHR 0xEF, CHR 0xB8, CHR 0x8F]"

definition keycap :: "char \<Rightarrow> string" where
  "keycap c = [c, CHR 0xEF, CHR 0xB8, CHR 0x8F, CHR 0xE2, CHR 0x83, CHR 0xA3]"

definition emoji_ten :: string where
  "emoji_ten = [CHR 0xF0, CHR 0x9F, CHR 0x94, CHR 0x9F]"

definition emoji_joker :: string where
  "emoji_joker = [CHR 0xF0, CHR 0x9F, CHR 0x83, CHR 0x8F]"

definition emoji_check :: string where
  "emoji_check = [CHR 0xE2, CHR 0x9C, CHR 0x93]"

definition emoji_party :: string where
  "emoji_party = [CHR 0xF0, CHR 0x9F, CHR 0x8E, CHR 0x89]"

definition emoji_collision :: string where
  "emoji_collision = [CHR 0xF0, CHR 0x9F, CHR 0x92, CHR 0xA5]"

definition emoji_dart :: string where
  "emoji_dart = [CHR 0xF0, CHR 0x9F, CHR 0x8E, CHR 0xAF]"

definition emoji_sad :: string where
  "emoji_sad = [CHR 0xF0, CHR 0x9F, CHR 0x98, CHR 0x9E]"

definition emoji_handshake :: string where
  "emoji_handshake = [CHR 0xF0, CHR 0x9F, CHR 0xA4, CHR 0x9D]"

definition emoji_memo :: string where
  "emoji_memo = [CHR 0xF0, CHR 0x9F, CHR 0x93, CHR 0x9D]"

text \<open>
  The table \<^verbatim>\<open>cardEmojis\<close> (lines 3-14), with the keys \<^verbatim>\<open>1\<close> to \<^verbatim>\<open>10\<close>. An index
  expression \<^verbatim>\<open>cardEmojis[v]\<close> converts \<open>v\<close> to a property name: the number \<open>k\<close> and the
  string of its decimal digits address the same entry. The name of a number that is
  not an integer has a fraction part and is no key of the table; it is \<open>None\<close> here.
  Names inherited from \<^verbatim>\<open>Object.prototype\<close> are not modelled.
\<close>

definition cardEmojis_table :: "(string \<times> string) list" where
  "cardEmojis_table =
     [(''1'', emoji_ace), (''2'', keycap CHR ''2''), (''3'', keycap CHR ''3''),
      (''4'', keycap CHR ''4''), (''5'', keycap CHR ''5''), (''6'', keycap CHR ''6''),
      (''7'', keycap CHR ''7''), (''8'', keycap CHR ''8''), (''9'', keycap CHR ''9''),
      (''10'', emoji_ten)]"

fun property_name :: "jsval \<Rightarrow> string option" where
  "property_name (JStr s) = Some s"
| "property_name (JNum (Fin r)) = (if r = of_int \<lfloor>r\<rfloor> then Some (show_int \<lfloor>r\<rfloor>) else None)"
| "property_name (JNum PosInf) = Some ''Infinity''"
| "property_name (JNum NegInf) = Some ''-Infinity''"
| "property_name (JNum NaN) = Some ''NaN''"
| "property_name (JBool b) = Some (if b then ''true'' else ''false'')"
| "property_name JNull = Some ''null''"
| "property_name JUndefined = Some ''undefined''"

definition cardEmojis :: "jsval \<Rightarrow> string option" where
  "cardEmojis v = (case property_name v of None \<Rightarrow> None | Some k \<Rightarrow> map_of cardEmojis_table k)"

text \<open>\<^verbatim>\<open>cardEmojis[card] || d\<close>: every entry of the table is a non-empty string.\<close>

definition emoji_or :: "string \<Rightarrow> jsval \<Rightarrow> string" where
  "emoji_or d v = (case cardEmojis v of Some e \<Rightarrow> e | None \<Rightarrow> d)"

text \<open>The summary of a hand and the data of a successful \<^verbatim>\<open>/api/play-hand\<close> response.\<close>

record summary =
  agent :: string
  dealer_upcard :: jsval
  player_total :: int
  dealer_total :: int
  player_bust :: jsval
  dealer_bust :: jsval

record hand_data =
  data_summary :: summary
  data_steps :: "step list"
  data_payoff :: jsval

text \<open>Per-agent statistics and the data of a successful \<^verbatim>\<open>/api/match\<close> response.\<close>

record stats =
  stats_agent :: string
  hands :: int
  wins :: int
  losses :: int
  pushes :: int
  avg_return :: jsnum

record results =
  results_A :: stats
  results_B :: stats


record agent_card =
  card_classes :: "string list"
  card_inner :: "html list"
  card_onclick :: "string \<times> string"

text \<open>
  The state the script reads and writes: its global \<^verbatim>\<open>selectedAgent\<close>, the elements it
  looks up by id (named as the script's local variables), the \<^verbatim>\<open>.agent-card\<close> elements,
  and the two channels to the user, \<^verbatim>\<open>alert\<close> and \<^verbatim>\<open>console.error\<close>.
\<close>

record page =
  selectedAgent :: string
  agent_cards :: "agent_card list"
  seed_input :: string
  play_btn_disabled :: bool
  loading_display :: string
  game_content_display :: string
  welcome_display :: string
  player_cards_div :: "html list"
  dealer_cards_div :: "html list"
  player_total_div :: "html list"
  dealer_total_div :: "html list"
  action_indicator :: "html list"
  agent_info :: "html list"
  result_box_class :: string
  result_box :: "html list"
  steps_trace :: "html list"
  hands_input :: string
  tournament_seed_input :: string
  run_tournament_btn_disabled :: bool
  tournament_loading_display :: string
  tournament_welcome_display :: string
  tournament_results_display :: string
  results_grid :: "html list"
  alerts :: "string list"
  console :: "(string \<times> string) list"

text \<open>
  A \<^verbatim>\<open>classList\<close> is the ordered list of an element's class names: \<^verbatim>\<open>add\<close> appends a name
  that is not there, \<^verbatim>\<open>remove\<close> deletes it, \<^verbatim>\<open>toggle(name, force)\<close> does one or the other.
\<close>

definition classList_add :: "string \<Rightarrow> string list \<Rightarrow> string list" where
  "classList_add c cs = (if c \<in> set cs then cs else cs @ [c])"

definition classList_remove :: "string \<Rightarrow> string list \<Rightarrow> string list" where
  "classList_remove c cs = removeAll c cs"



section \<open>Displaying a hand\<close>

text \<open>The element \<^verbatim>\<open>displayGameTable\<close> creates for one card (lines 182-185, 192-196).\<close>

definition card_element :: "jsval \<Rightarrow> html" where
  "card_element c = Elem ''div'' [(''class'', ''card'')] [Text (emoji_or emoji_joker c)]"

definition total_html :: "int \<Rightarrow> html list" where
  "total_html t = [Text ''Total: '', Elem ''strong'' [] [Text (show_int t)]]"

text \<open>
  \<^verbatim>\<open>displayGameTable(summary, steps)\<close>: both card containers are emptied, the cards
  are extracted from the trace and one element is appended per card, then the totals,
  the action indicator and the agent line are written.
\<close>

definition displayGameTable :: "summary \<Rightarrow> step list \<Rightarrow> page \<Rightarrow> page" where
  "displayGameTable summary steps pg =
     (let playerCards = fst (extract_cards steps);
          dealerCards = snd (extract_cards steps)
      in pg\<lparr>player_cards_div := map card_element playerCards,
            dealer_cards_div := map card_element dealerCards,
            player_total_div := total_html (player_total summary),
            dealer_total_div := total_html (dealer_total summary),
            action_indicator := [Text (emoji_check @ '' Hand Complete'')],
            agent_info :=
              [Elem ''strong'' [] [Text ''Agent:''], Text ('' '' @ agent summary @ '' | ''),
               Elem ''strong'' [] [Text ''Dealer Upcard:''],
               Text ('' '' @ emoji_or ''?'' (dealer_upcard summary))]\<rparr>)"

text \<open>
  The branches of \<^verbatim>\<open>displayResult\<close> (lines 235-253) that set the two local variables
  \<^verbatim>\<open>resultClass\<close> and \<^verbatim>\<open>resultText\<close>, both initially the empty string.
\<close>

definition result_class_text :: "jsval \<Rightarrow> summary \<Rightarrow> string \<times> string" where
  "result_class_text payoff summary =
     (if payoff = JNum (Fin 1) then (''win'', emoji_party @ '' Player Wins!'')
      else if payoff = JNum (Fin (- 1)) then
        (''loss'',
         if truthy (player_bust summary) then emoji_collision @ '' Player Busts - Dealer Wins!''
         else if truthy (dealer_bust summary) then emoji_dart @ '' Dealer Busts - Player Wins!''
         else emoji_sad @ '' Dealer Wins!'')
      else (''push'', emoji_handshake @ '' Push (Tie)!''))"

text \<open>\<^verbatim>\<open>displayResult(payoff, summary)\<close>: the class and the content of the result box.\<close>

definition displayResult :: "jsval \<Rightarrow> summary \<Rightarrow> page \<Rightarrow> page" where
  "displayResult payoff summary pg =
     (let resultClass = fst (result_class_text payoff summary);
          resultText = snd (result_class_text payoff summary)
      in pg\<lparr>result_box_class := ''result-box '' @ resultClass,
            result_box :=
              [Elem ''div'' [] [Text resultText],
               Elem ''div'' [(''style'', ''margin-top: 10px; font-size: 0.9em;'')]
                 [Text (''Player: '' @ show_int (player_total summary) @
                        '' | Dealer: '' @ show_int (dealer_total summary))]]\<rparr>)"

text \<open>\<^verbatim>\<open>displayTrace(steps)\<close>: a heading and one item per step (lines 265-283).\<close>

definition step_item :: "step \<Rightarrow> html" where
  "step_item st =
     (let card_text = (if truthy (card st) then emoji_or emoji_joker (card st) else [])
      in Elem ''div'' [(''class'', ''step-item'')]
           ([Elem ''span'' [(''class'', ''step-actor'')] [Text (actor st)],
             Elem ''span'' [(''class'', ''step-action'')] [Text (action st)],
             Text (card_text @ '' | P:'' @ show_int (step_player_total st) @
                   '' D:'' @ show_int (step_dealer_total st))] @
            (case step_note st of
               None \<Rightarrow> []
             | Some n \<Rightarrow> if n = [] then [] else [Elem ''span'' [(''class'', ''step-note'')] [Text n]])))"

definition displayTrace :: "step list \<Rightarrow> page \<Rightarrow> page" where
  "displayTrace steps pg =
     pg\<lparr>steps_trace := Elem ''h4'' [] [Text (emoji_memo @ '' Hand Trace'')] # map step_item steps\<rparr>"

text \<open>\<^verbatim>\<open>displayHand(data, agentId)\<close>: table, result, trace, in this order.\<close>

definition displayHand :: "hand_data \<Rightarrow> string \<Rightarrow> page \<Rightarrow> page" where
  "displayHand data agentId pg =
     displayTrace (data_steps data)
       (displayResult (data_payoff data) (data_summary data)
          (displayGameTable (data_summary data) (data_steps data) pg))"

section \<open>Playing a hand\<close>

text \<open>
  What awaiting \<^verbatim>\<open>fetch\<close> and \<^verbatim>\<open>response.json()\<close> gives the script: an exception (the
  request failed or the body is not JSON), carrying the error's text; an object whose
  \<^verbatim>\<open>success\<close> is false, with its \<^verbatim>\<open>error\<close> string; or a successful response with its
  data, shaped as the service's contract says.
\<close>

datatype 'a reply = TransportError string | ServiceError string | Success 'a

record play_request =
  agent_id_sent :: string
  seed_sent :: "int option"

text \<open>
  A seed field: \<^verbatim>\<open>value || null\<close>, then \<^verbatim>\<open>seed ? parseInt(seed) : null\<close>; in the JSON body
  NaN is written as \<^verbatim>\<open>null\<close>.
\<close>

definition seed_of :: "string \<Rightarrow> int option" where
  "seed_of v = (if v = [] then None else parseInt v)"

text \<open>
  \<^verbatim>\<open>playHand\<close> up to the first \<^verbatim>\<open>await\<close> (lines 98-117): the button is disabled, the
  loading indicator shown and the request sent.
\<close>

definition playHand_begin :: "page \<Rightarrow> page \<times> play_request" where
  "playHand_begin pg =
     (pg\<lparr>play_btn_disabled := True, loading_display := ''block''\<rparr>,
      \<lparr>agent_id_sent = selectedAgent pg, seed_sent = seed_of (seed_input pg)\<rparr>)"

text \<open>
  The rest of the \<^verbatim>\<open>try\<close> block once the reply is there (lines 119-127): \<open>Inl\<close> is the
  exception thrown, \<open>Inr\<close> the page when the block completes.
\<close>

definition playHand_try :: "page \<Rightarrow> hand_data reply \<Rightarrow> string + page" where
  "playHand_try pg r =
     (case r of
        TransportError e \<Rightarrow> Inl e
      | Success data \<Rightarrow>
          Inr ((displayHand data (selectedAgent pg) pg)
                 \<lparr>welcome_display := ''none'', game_content_display := ''block''\<rparr>)
      | ServiceError e \<Rightarrow> Inr (pg\<lparr>alerts := alerts pg @ [''Error playing hand: '' @ e]\<rparr>))"

definition playHand_catch :: "string \<Rightarrow> page \<Rightarrow> page" where
  "playHand_catch e pg =
     pg\<lparr>console := console pg @ [(''Error:'', e)], alerts := alerts pg @ [''Failed to play hand'']\<rparr>"

definition playHand_finally :: "page \<Rightarrow> page" where
  "playHand_finally pg = pg\<lparr>play_btn_disabled := False, loading_display := ''none''\<rparr>"

text \<open>\<^verbatim>\<open>playHand\<close> from the reply on: \<^verbatim>\<open>try\<close>, \<^verbatim>\<open>catch\<close>, \<^verbatim>\<open>finally\<close>.\<close>

definition playHand_end :: "page \<Rightarrow> hand_data reply \<Rightarrow> page" where
  "playHand_end pg r =
     playHand_finally (case playHand_try pg r of Inl e \<Rightarrow> playHand_catch e pg | Inr pg' \<Rightarrow> pg')"

text \<open>A whole call of \<^verbatim>\<open>playHand\<close> whose request is answered by \<open>r\<close>.\<close>

definition playHand :: "page \<Rightarrow> hand_data reply \<Rightarrow> page" where
  "playHand pg r = playHand_end (fst (playHand_begin pg)) r"

section \<open>Running a tournament\<close>

text \<open>
  The local \<^verbatim>\<open>winRate\<close> of \<^verbatim>\<open>displayTournamentResults\<close> (line 335),
  \<^verbatim>\<open>(stats.wins / stats.hands * 100).toFixed(1)\<close>, and the value cell it is shown in,
  \<^verbatim>\<open>${winRate}%\<close> (line 358).
\<close>

definition winRate :: "stats \<Rightarrow> string" where
  "winRate st =
     toFixed 1 (js_mul (js_div (Fin (of_int (wins st))) (Fin (of_int (hands st)))) (Fin 100))"

definition win_rate_cell :: "stats \<Rightarrow> string" where
  "win_rate_cell st = winRate st @ ''%''"

definition result_stat :: "string \<Rightarrow> string \<Rightarrow> html" where
  "result_stat label v =
     Elem ''div'' [(''class'', ''result-stat'')]
       [Elem ''span'' [(''class'', ''result-stat-label'')] [Text label],
        Elem ''span'' [(''class'', ''result-stat-value'')] [Text v]]"

definition result_card :: "stats \<Rightarrow> html" where
  "result_card st =
     Elem ''div'' [(''class'', ''result-card'')]
       [Elem ''h3'' [] [Text (stats_agent st)],
        result_stat ''Total Hands:'' (show_int (hands st)),
        result_stat ''Wins:'' (show_int (wins st)),
        result_stat ''Losses:'' (show_int (losses st)),
        result_stat ''Pushes:'' (show_int (pushes st)),
        result_stat ''Win Rate:'' (win_rate_cell st),
        result_stat ''Avg Return:'' (toFixed 4 (avg_return st))]"

text \<open>\<^verbatim>\<open>displayTournamentResults(results)\<close>: one card for slot A, then one for slot B.\<close>

definition displayTournamentResults :: "results \<Rightarrow> page \<Rightarrow> page" where
  "displayTournamentResults res pg =
     pg\<lparr>results_grid := [result_card (results_A res), result_card (results_B res)]\<rparr>"

record match_request =
  num_hands_sent :: int
  match_seed_sent :: "int option"

text \<open>\<^verbatim>\<open>parseInt(value) || 1000\<close> (line 287): NaN and zero are the falsy numbers.\<close>

definition numHands :: "string \<Rightarrow> int" where
  "numHands v = (case parseInt v of None \<Rightarrow> 1000 | Some n \<Rightarrow> if n = 0 then 1000 else n)"

text \<open>\<^verbatim>\<open>runTournament\<close> in the same three parts as \<^verbatim>\<open>playHand\<close> (lines 286-325).\<close>

definition runTournament_begin :: "page \<Rightarrow> page \<times> match_request" where
  "runTournament_begin pg =
     (pg\<lparr>run_tournament_btn_disabled := True, tournament_loading_display := ''block''\<rparr>,
      \<lparr>num_hands_sent = numHands (hands_input pg),
       match_seed_sent = seed_of (tournament_seed_input pg)\<rparr>)"

definition runTournament_try :: "page \<Rightarrow> results reply \<Rightarrow> string + page" where
  "runTournament_try pg r =
     (case r of
        TransportError e \<Rightarrow> Inl e
      | Success res \<Rightarrow>
          Inr ((displayTournamentResults res pg)
                 \<lparr>tournament_welcome_display := ''none'', tournament_results_display := ''block''\<rparr>)
      | ServiceError e \<Rightarrow> Inr (pg\<lparr>alerts := alerts pg @ [''Error running tournament: '' @ e]\<rparr>))"

definition runTournament_catch :: "string \<Rightarrow> page \<Rightarrow> page" where
  "runTournament_catch e pg =
     pg\<lparr>console := console pg @ [(''Error:'', e)],
        alerts := alerts pg @ [''Failed to run tournament'']\<rparr>"

definition runTournament_finally :: "page \<Rightarrow> page" where
  "runTournament_finally pg =
     pg\<lparr>run_tournament_btn_disabled := False, tournament_loading_display := ''none''\<rparr>"

definition runTournament_end :: "page \<Rightarrow> results reply \<Rightarrow> page" where
  "runTournament_end pg r =
     runTournament_finally
       (case runTournament_try pg r of Inl e \<Rightarrow> runTournament_catch e pg | Inr pg' \<Rightarrow> pg')"

definition runTournament :: "page \<Rightarrow> results reply \<Rightarrow> page" where
  "runTournament pg r = runTournament_end (fst (runTournament_begin pg)) r"

section \<open>Agents\<close>








section \<open>Tabs\<close>

text \<open>
  \<^verbatim>\<open>showTab\<close> reaches elements through selectors, an id and the target of the current
  event, so the document is the list of its elements in document order, each with its
  id, its class list and its \<^verbatim>\<open>data-tab\<close> attribute; the event target is a position
  in that list.
\<close>

record element =
  element_id :: string
  element_classes :: "string list"
  data_tab :: "string option"

definition remove_active :: "string \<Rightarrow> element \<Rightarrow> element" where
  "remove_active cls e =
     (if cls \<in> set (element_classes e)
      then e\<lparr>element_classes := classList_remove ''active'' (element_classes e)\<rparr> else e)"

definition add_active :: "nat \<Rightarrow> element list \<Rightarrow> element list" where
  "add_active i doc =
     (if i < length doc
      then doc[i := (doc ! i)\<lparr>element_classes := classList_add ''active'' (element_classes (doc ! i))\<rparr>]
      else doc)"

text \<open>\<^verbatim>\<open>document.getElementById\<close>: the first element with the id, if any.\<close>

fun getElementById :: "string \<Rightarrow> element list \<Rightarrow> nat option" where
  "getElementById x [] = None"
| "getElementById x (e # es) =
     (if element_id e = x then Some 0 else map_option Suc (getElementById x es))"

text \<open>
  \<^verbatim>\<open>showTab(tabName)\<close> (lines 65-85) with the ambient \<^verbatim>\<open>event.target\<close> as the argument
  \<open>target\<close>. The name comes from \<^verbatim>\<open>getAttribute\<close>, which gives \<^verbatim>\<open>null\<close> for a missing
  attribute; the template literal writes it as the text \<^verbatim>\<open>null\<close>.
\<close>

definition showTab :: "string option \<Rightarrow> nat \<Rightarrow> element list \<Rightarrow> element list" where
  "showTab tabName target doc =
     (let doc1 = map (remove_active ''tab-content'') doc;
          doc2 = map (remove_active ''tab-btn'') doc1;
          tabId = (case tabName of None \<Rightarrow> ''null'' | Some n \<Rightarrow> n) @ ''-tab'';
          doc3 = (case getElementById tabId doc2 of None \<Rightarrow> doc2 | Some i \<Rightarrow> add_active i doc2)
      in add_active target doc3)"

text \<open>
  The click listener \<^verbatim>\<open>setupTabNavigation\<close> puts on every \<^verbatim>\<open>.tab-btn\<close> element, for a
  click whose target is the button itself.
\<close>

definition tab_click :: "nat \<Rightarrow> element list \<Rightarrow> element list" where
  "tab_click target doc =
     (if target < length doc \<and> ''tab-btn'' \<in> set (element_classes (doc ! target))
      then showTab (data_tab (doc ! target)) target doc else doc)"

text \<open>The positions of the active elements of class \<open>cls\<close>.\<close>

definition active_of :: "string \<Rightarrow> element list \<Rightarrow> nat list" where
  "active_of cls doc =
     filter (\<lambda>i. cls \<in> set (element_classes (doc ! i)) \<and> ''active'' \<in> set (element_classes (doc ! i)))
       [0..<length doc]"

section \<open>The page before any action\<close>

text \<open>
  The script's global starts as \<^verbatim>\<open>'EV'\<close> (line 2). The markup is not part of the
  script; this page has no agent cards yet, empty inputs and containers, and no inline
  style on any element.
\<close>

definition start_page :: page where
  "start_page =
     \<lparr>selectedAgent = ''EV'', agent_cards = [], seed_input = [], play_btn_disabled = False,
      loading_display = [], game_content_display = [], welcome_display = [],
      player_cards_div = [], dealer_cards_div = [], player_total_div = [], dealer_total_div = [],
      action_indicator = [], agent_info = [], result_box_class = ''result-box'', result_box = [],
      steps_trace = [], hands_input = [], tournament_seed_input = [],
      run_tournament_btn_disabled = False, tournament_loading_display = [],
      tournament_welcome_display = [], tournament_results_display = [], results_grid = [],
      alerts = [], console = []\<rparr>"

section \<open>The outcome table of the specification\<close>

text \<open>
  The specification names four outcome categories and fixes one message and one visual
  class for each. \<open>spec_category\<close> is its precedence table as the claim under test words
  it: a payoff of 1 is a win whatever the flags, a payoff of -1 is a bust loss when the
  player bust and a plain dealer win otherwise, anything else is a push. \<open>category_view\<close>
  is the lookup table from a category to the class and the message shown for it.
\<close>

datatype category = WIN | LOSS_BUST | LOSS_DEALER | PUSH

definition spec_category :: "int \<Rightarrow> bool \<Rightarrow> bool \<Rightarrow> category" where
  "spec_category p pb db =
     (if p = 1 then WIN
      else if p = - 1 \<and> pb then LOSS_BUST
      else if p = - 1 then LOSS_DEALER
      else PUSH)"

fun category_view :: "category \<Rightarrow> string \<times> string" where
  "category_view WIN = (''win'', emoji_party @ '' Player Wins!'')"
| "category_view LOSS_BUST = (''loss'', emoji_collision @ '' Player Busts - Dealer Wins!'')"
| "category_view LOSS_DEALER = (''loss'', emoji_sad @ '' Dealer Wins!'')"
| "category_view PUSH = (''push'', emoji_handshake @ '' Push (Tie)!'')"

section \<open>Auxiliary notions for the statements\<close>

text \<open>
  What \<^verbatim>\<open>showTab\<close> makes of one class list: \<open>is_tab\<close> says that the element is the one
  \<^verbatim>\<open>getElementById\<close> found, \<open>is_target\<close> that it is the event target.
\<close>

definition tab_classes :: "bool \<Rightarrow> bool \<Rightarrow> string list \<Rightarrow> string list" where
  "tab_classes is_tab is_target cs =
     (let c1 = (if ''tab-content'' \<in> set cs \<or> ''tab-btn'' \<in> set cs
                then classList_remove ''active'' cs else cs);
          c2 = (if is_tab then classList_add ''active'' c1 else c1)
      in if is_target then classList_add ''active'' c2 else c2)"


text \<open>Example data: a document with two tabs, the first one active, and two catalogs.\<close>

definition two_tabs :: "element list" where
  "two_tabs =
     [\<lparr>element_id = ''play-button'', element_classes = [''tab-btn'', ''active''], data_tab = Some ''play''\<rparr>,
      \<lparr>element_id = ''tournament-button'', element_classes = [''tab-btn''], data_tab = Some ''tournament''\<rparr>,
      \<lparr>element_id = ''play-tab'', element_classes = [''tab-content'', ''active''], data_tab = None\<rparr>,
      \<lparr>element_id = ''tournament-tab'', element_classes = [''tab-content''], data_tab = None\<rparr>]"



definition bust_hand :: summary where
  "bust_hand =
     \<lparr>agent = ''EV'', dealer_upcard = JNum (Fin 6), player_total = 24, dealer_total = 16,
      player_bust = JBool True, dealer_bust = JBool False\<rparr>"

definition dealer_bust_hand :: summary where
  "dealer_bust_hand =
     \<lparr>agent = ''EV'', dealer_upcard = JNum (Fin 6), player_total = 18, dealer_total = 22,
      player_bust = JBool False, dealer_bust = JBool True\<rparr>"

section \<open>Trace reconstruction\<close>

lemma extract_step_foldl:
  "foldl extract_step (ps, ds) steps =
     (ps @ map card (filter (\<lambda>s. actor s = ''PLAYER'' \<and> card s \<noteq> JNull) steps),
      ds @ map card (filter (\<lambda>s. (actor s = ''DEALER'' \<or> actor s = ''SYSTEM'') \<and> card s \<noteq> JNull) steps))"
proof (induction steps arbitrary: ps ds)
  case Nil
  show ?case by simp
next
  case (Cons s steps)
  show ?case
  proof (cases "card s = JNull")
    case True
    then show ?thesis using Cons.IH [of ps ds] by simp
  next
    case False
    then show ?thesis
      using Cons.IH [of "ps @ [card s]" ds] Cons.IH [of ps "ds @ [card s]"] Cons.IH [of ps ds]
      by auto
  qed
qed

text \<open>
  C1. For every ordered sequence of steps, \<^verbatim>\<open>playerCards\<close> is exactly the cards of the
  steps whose actor is \<^verbatim>\<open>PLAYER\<close> and whose card is not \<^verbatim>\<open>null\<close>, in their order in
  the trace, and \<^verbatim>\<open>dealerCards\<close> is exactly the cards of the steps whose actor is
  \<^verbatim>\<open>DEALER\<close> or \<^verbatim>\<open>SYSTEM\<close> and whose card is not \<^verbatim>\<open>null\<close>, in their order; so the
  lengths are the two counts, and a step whose card is \<^verbatim>\<open>null\<close> contributes nothing.
\<close>

theorem extract_cards_by_actor:
  "fst (extract_cards steps) =
     map card (filter (\<lambda>s. actor s = ''PLAYER'' \<and> card s \<noteq> JNull) steps)
   \<and> snd (extract_cards steps) =
     map card (filter (\<lambda>s. (actor s = ''DEALER'' \<or> actor s = ''SYSTEM'') \<and> card s \<noteq> JNull) steps)
   \<and> length (fst (extract_cards steps)) =
     length (filter (\<lambda>s. actor s = ''PLAYER'' \<and> card s \<noteq> JNull) steps)
   \<and> length (snd (extract_cards steps)) =
     length (filter (\<lambda>s. (actor s = ''DEALER'' \<or> actor s = ''SYSTEM'') \<and> card s \<noteq> JNull) steps)"
  by (simp add: extract_cards_def extract_step_foldl)

section \<open>Outcome classification\<close>

lemmas emoji_defs =
  emoji_party_def emoji_collision_def emoji_dart_def emoji_sad_def emoji_handshake_def

lemma result_class_defined:
  "fst (result_class_text payoff s) \<in> {''win'', ''loss'', ''push''}
   \<and> snd (result_class_text payoff s) \<noteq> []"
  by (simp add: result_class_text_def emoji_defs)

lemma category_view_inj: "inj category_view"
proof (rule injI)
  fix x y
  assume "category_view x = category_view y"
  then show "x = y" by (cases x; cases y) (simp_all add: emoji_defs)
qed

text \<open>
  C2 (as amended). For a payoff in \<open>{-1, 0, 1}\<close> and boolean bust flags, except for the
  combination of payoff -1 with a dealer bust and no player bust, the class and the
  message \<^verbatim>\<open>displayResult\<close> chooses are those the table gives for the category: a
  payoff of 1 is a win whatever the flags, a payoff of -1 with a player bust is a bust
  loss, a payoff of -1 with neither flag is the plain dealer win, a payoff of 0 is a push.
  Distinct categories have distinct pairs of class and message.
\<close>

theorem outcome_table_amended:
  assumes "p \<in> {- 1, 0, 1}"
    and "player_bust s = JBool pb" and "dealer_bust s = JBool db"
    and "\<not> (p = - 1 \<and> \<not> pb \<and> db)"
  shows "result_class_text (JNum (Fin (of_int p))) s = category_view (spec_category p pb db)
    \<and> inj category_view"
proof
  show "result_class_text (JNum (Fin (of_int p))) s = category_view (spec_category p pb db)"
    using assms by (auto simp: result_class_text_def spec_category_def)
  show "inj category_view" by (rule category_view_inj)
qed

text \<open>The amended table at a hand the player lost by going bust.\<close>

theorem outcome_table_amended_witness:
  "result_class_text (JNum (Fin (of_int (- 1)))) bust_hand
     = (''loss'', emoji_collision @ '' Player Busts - Dealer Wins!'')
   \<and> inj category_view"
proof -
  have h1: "(- 1 :: int) \<in> {- 1, 0, 1}" by simp
  have h2: "player_bust bust_hand = JBool True" by (simp add: bust_hand_def)
  have h3: "dealer_bust bust_hand = JBool False" by (simp add: bust_hand_def)
  have h4: "\<not> ((- 1 :: int) = - 1 \<and> \<not> True \<and> False)" by simp
  show ?thesis
    using outcome_table_amended [OF h1 h2 h3 h4] by (simp add: spec_category_def)
qed

text \<open>
  The claim as first stated fails where the payoff is -1, the player did not bust and
  the dealer flag is set: the script shows its dealer-bust message there, not the
  message of the plain dealer win.
\<close>

theorem outcome_table_counterexample:
  "result_class_text (JNum (Fin (- 1))) dealer_bust_hand
     \<noteq> category_view (spec_category (- 1) False True)"
  by (simp add: result_class_text_def spec_category_def dealer_bust_hand_def emoji_defs)

text \<open>
  C9. On the valid domain (a payoff in \<open>{-1, 0, 1}\<close>, boolean flags) the classification is
  defined: the class is one of \<^verbatim>\<open>win\<close>, \<^verbatim>\<open>loss\<close>, \<^verbatim>\<open>push\<close> and the message is not
  empty, so neither local keeps its initial empty string. It is a function of the
  payoff and the two flags alone: two summaries that agree on the flags get the same
  class and message, and the result box written does not depend on the page it is
  written to.
\<close>

theorem outcome_total_deterministic:
  assumes "p \<in> {- 1, 0, 1}"
    and "player_bust s = JBool pb" and "dealer_bust s = JBool db"
    and "player_bust s' = JBool pb" and "dealer_bust s' = JBool db"
  shows "fst (result_class_text (JNum (Fin (of_int p))) s) \<in> {''win'', ''loss'', ''push''}
    \<and> snd (result_class_text (JNum (Fin (of_int p))) s) \<noteq> []
    \<and> result_class_text (JNum (Fin (of_int p))) s' = result_class_text (JNum (Fin (of_int p))) s
    \<and> result_box_class (displayResult (JNum (Fin (of_int p))) s pg')
        = result_box_class (displayResult (JNum (Fin (of_int p))) s pg)
    \<and> result_box (displayResult (JNum (Fin (of_int p))) s pg')
        = result_box (displayResult (JNum (Fin (of_int p))) s pg)
    \<and> hd (result_box (displayResult (JNum (Fin (of_int p))) s' pg'))
        = hd (result_box (displayResult (JNum (Fin (of_int p))) s pg))"
proof -
  have same: "result_class_text (JNum (Fin (of_int p))) s' = result_class_text (JNum (Fin (of_int p))) s"
    using assms by (simp add: result_class_text_def)
  show ?thesis
    using same result_class_defined [of "JNum (Fin (of_int p))" s]
    by (simp add: displayResult_def Let_def)
qed

text \<open>Two lost hands with the same flags, shown on two different pages.\<close>

theorem outcome_total_deterministic_witness:
  "fst (result_class_text (JNum (Fin (of_int (- 1)))) bust_hand) \<in> {''win'', ''loss'', ''push''}
   \<and> result_class_text (JNum (Fin (of_int (- 1)))) (bust_hand\<lparr>player_total := 30\<rparr>)
       = result_class_text (JNum (Fin (of_int (- 1)))) bust_hand
   \<and> result_box (displayResult (JNum (Fin (of_int (- 1)))) bust_hand (start_page\<lparr>alerts := [''x'']\<rparr>))
       = result_box (displayResult (JNum (Fin (of_int (- 1)))) bust_hand start_page)"
proof -
  have h1: "(- 1 :: int) \<in> {- 1, 0, 1}" by simp
  have h2: "player_bust bust_hand = JBool True" by (simp add: bust_hand_def)
  have h3: "dealer_bust bust_hand = JBool False" by (simp add: bust_hand_def)
  have h4: "player_bust (bust_hand\<lparr>player_total := 30\<rparr>) = JBool True" by (simp add: bust_hand_def)
  have h5: "dealer_bust (bust_hand\<lparr>player_total := 30\<rparr>) = JBool False" by (simp add: bust_hand_def)
  show ?thesis
    using outcome_total_deterministic [OF h1 h2 h3 h4 h5, of "start_page\<lparr>alerts := [''x'']\<rparr>" start_page]
    by simp
qed

text \<open>
  C10. Every payoff other than the numbers 1 and -1, whatever kind of value it is, gets
  the push class and message; and for every payoff and summary the class and message
  are one of the five pairs the branches assign, never the initial pair of empty strings.
\<close>

theorem push_for_every_other_payoff:
  "(payoff \<noteq> JNum (Fin 1) \<and> payoff \<noteq> JNum (Fin (- 1)) \<longrightarrow>
      result_class_text payoff s = (''push'', emoji_handshake @ '' Push (Tie)!''))
   \<and> result_class_text payoff s \<in>
       {(''win'', emoji_party @ '' Player Wins!''),
        (''loss'', emoji_collision @ '' Player Busts - Dealer Wins!''),
        (''loss'', emoji_dart @ '' Dealer Busts - Player Wins!''),
        (''loss'', emoji_sad @ '' Dealer Wins!''),
        (''push'', emoji_handshake @ '' Push (Tie)!'')}
   \<and> result_class_text payoff s \<noteq> ([], [])"
  by (simp add: result_class_text_def)

text \<open>The payoffs 2, \<^verbatim>\<open>null\<close> and the string \<^verbatim>\<open>"1"\<close> are pushes.\<close>

theorem push_for_every_other_payoff_witness:
  "result_class_text (JNum (Fin 2)) bust_hand = (''push'', emoji_handshake @ '' Push (Tie)!'')
   \<and> result_class_text JNull bust_hand = (''push'', emoji_handshake @ '' Push (Tie)!'')
   \<and> result_class_text (JStr ''1'') bust_hand = (''push'', emoji_handshake @ '' Push (Tie)!'')"
  using push_for_every_other_payoff [of "JNum (Fin 2)" bust_hand]
    push_for_every_other_payoff [of JNull bust_hand]
    push_for_every_other_payoff [of "JStr ''1''" bust_hand]
  by simp

section \<open>Failure and completion of the two requests\<close>

text \<open>
  C4 (as amended). When the service answers \<^verbatim>\<open>playHand\<close> with \<^verbatim>\<open>success: false\<close>, the
  user gets one alert, the text \<^verbatim>\<open>Error playing hand: \<close> followed by the error string
  as it came; when the request or the parsing of the reply fails, the user gets one
  alert with the fixed text \<^verbatim>\<open>Failed to play hand\<close> and the error itself goes to the
  console. In both cases nothing else of the page changes but the button, enabled
  again, and the loading indicator, hidden again: the game content, the welcome
  message and the last hand shown stay as they were.
\<close>

theorem playHand_failure_amended:
  "playHand pg (ServiceError e) =
     pg\<lparr>play_btn_disabled := False, loading_display := ''none'',
        alerts := alerts pg @ [''Error playing hand: '' @ e]\<rparr>
   \<and> playHand pg (TransportError e) =
     pg\<lparr>play_btn_disabled := False, loading_display := ''none'',
        alerts := alerts pg @ [''Failed to play hand''],
        console := console pg @ [(''Error:'', e)]\<rparr>"
  by (simp add: playHand_def playHand_begin_def playHand_end_def playHand_try_def
      playHand_catch_def playHand_finally_def)

text \<open>
  The claim as first stated, that the error string itself is the notification, fails
  for a service error and for a transport error.
\<close>

theorem playHand_failure_counterexample:
  "alerts (playHand start_page (ServiceError ''deck is empty''))
     \<noteq> alerts start_page @ [''deck is empty'']
   \<and> alerts (playHand start_page (TransportError ''NetworkError''))
     \<noteq> alerts start_page @ [''NetworkError'']"
  by (simp add: playHand_def playHand_begin_def playHand_end_def playHand_try_def
      playHand_catch_def playHand_finally_def start_page_def)

text \<open>
  C5. For \<^verbatim>\<open>playHand\<close> and for \<^verbatim>\<open>runTournament\<close>: the button is disabled when the
  request goes out, and whatever the reply is (data, a service error or an exception)
  it is enabled when the call is over, from whatever page the reply is handled on.
\<close>

theorem button_released_on_every_path:
  "play_btn_disabled (fst (playHand_begin pg))
   \<and> \<not> play_btn_disabled (playHand_end pg' r)
   \<and> \<not> play_btn_disabled (playHand pg r)
   \<and> run_tournament_btn_disabled (fst (runTournament_begin pg))
   \<and> \<not> run_tournament_btn_disabled (runTournament_end pg' r')
   \<and> \<not> run_tournament_btn_disabled (runTournament pg r')"
  by (simp add: playHand_def playHand_begin_def playHand_end_def playHand_finally_def
      runTournament_def runTournament_begin_def runTournament_end_def runTournament_finally_def)

section \<open>Reading the number of hands\<close>
































section \<open>The win rate shown\<close>

text \<open>
  C3. With 423 wins in 1000 hands the win rate cell reads \<^verbatim>\<open>42.3%\<close>. With no hands
  played the quotient is NaN and the cell reads \<^verbatim>\<open>NaN%\<close>: the script has no fallback.
\<close>

theorem win_rate_of_no_hands:
  "win_rate_cell \<lparr>stats_agent = ''EV'', hands = 1000, wins = 423, losses = 500, pushes = 77,
                  avg_return = Fin (15 / 1000)\<rparr> = ''42.3%''
   \<and> win_rate_cell \<lparr>stats_agent = ''EV'', hands = 0, wins = 0, losses = 0, pushes = 0,
                    avg_return = Fin 0\<rparr> = ''NaN%''"
  by code_simp

section \<open>Selecting an agent\<close>

lemma filter_eq_single:
  "k < n \<Longrightarrow> filter (\<lambda>i. i = k) [0..<n] = [k]"
proof (induction n)
  case 0
  then show ?case by simp
next
  case (Suc n)
  show ?case
  proof (cases "k < n")
    case True
    then show ?thesis using Suc.IH by simp
  next
    case False
    then have k: "k = n" using Suc.prems by simp
    have "filter (\<lambda>i. i = n) [0..<n] = []" by (simp add: filter_empty_conv)
    then show ?thesis using k by simp
  qed
qed

lemma filter_upt_single:
  assumes "k < n" and "\<And>i. i < n \<Longrightarrow> P i = (i = k)"
  shows "filter P [0..<n] = [k]"
proof -
  have "filter P [0..<n] = filter (\<lambda>i. i = k) [0..<n]"
    by (rule filter_cong) (simp_all add: assms(2))
  then show ?thesis using filter_eq_single [OF assms(1)] by simp
qed









section \<open>Switching tabs\<close>

lemma remove_active_twice:
  "remove_active ''tab-btn'' (remove_active ''tab-content'' e) =
     e\<lparr>element_classes :=
         (if ''tab-content'' \<in> set (element_classes e) \<or> ''tab-btn'' \<in> set (element_classes e)
          then classList_remove ''active'' (element_classes e) else element_classes e)\<rparr>"
  by (simp add: remove_active_def classList_remove_def)

lemma getElementById_map:
  assumes "\<And>e. element_id (f e) = element_id e"
  shows "getElementById x (map f doc) = getElementById x doc"
  by (induction doc) (simp_all add: assms)

lemma getElementById_Some:
  "getElementById x doc = Some p \<Longrightarrow> p < length doc \<and> element_id (doc ! p) = x"
proof (induction doc arbitrary: p)
  case Nil
  then show ?case by simp
next
  case (Cons e es)
  show ?case
  proof (cases "element_id e = x")
    case True
    then show ?thesis using Cons.prems by simp
  next
    case False
    then obtain q where q: "getElementById x es = Some q" "p = Suc q"
      using Cons.prems by auto
    then show ?thesis using Cons.IH [of q] by simp
  qed
qed

lemma getElementById_same_ids:
  assumes "map element_id doc' = map element_id doc"
  shows "getElementById x doc' = getElementById x doc"
  using assms
proof (induction doc arbitrary: doc')
  case Nil
  then show ?case by simp
next
  case (Cons e es)
  then obtain e' es' where d: "doc' = e' # es'" by (cases doc') auto
  then show ?case using Cons.prems Cons.IH [of es'] by simp
qed

lemma length_add_active [simp]: "length (add_active i doc) = length doc"
  by (simp add: add_active_def)

lemma nth_add_active:
  "j < length doc \<Longrightarrow> add_active i doc ! j =
     (if j = i then (doc ! j)\<lparr>element_classes := classList_add ''active'' (element_classes (doc ! j))\<rparr>
      else doc ! j)"
  by (simp add: add_active_def)

lemma length_showTab [simp]: "length (showTab nm t doc) = length doc"
  by (simp add: showTab_def Let_def split: option.splits)

lemma showTab_nth:
  assumes "i < length doc"
  shows "showTab nm t doc ! i =
    (doc ! i)\<lparr>element_classes :=
      tab_classes (getElementById ((case nm of None \<Rightarrow> ''null'' | Some n \<Rightarrow> n) @ ''-tab'') doc = Some i)
        (i = t) (element_classes (doc ! i))\<rparr>"
proof -
  let ?tabId = "(case nm of None \<Rightarrow> ''null'' | Some n \<Rightarrow> n) @ ''-tab''"
  let ?doc2 = "map (remove_active ''tab-btn'') (map (remove_active ''tab-content'') doc)"
  have ids: "\<And>cls e. element_id (remove_active cls e) = element_id e"
    by (simp add: remove_active_def)
  have g: "getElementById ?tabId ?doc2 = getElementById ?tabId doc"
    by (simp add: getElementById_map ids)
  have n2: "?doc2 ! i = remove_active ''tab-btn'' (remove_active ''tab-content'' (doc ! i))"
    using assms by simp
  have len2: "length ?doc2 = length doc" by simp
  show ?thesis
  proof (cases "getElementById ?tabId doc")
    case None
    have "showTab nm t doc = add_active t ?doc2"
      using None g by (simp add: showTab_def Let_def)
    then show ?thesis
      using assms None n2 len2
      by (simp add: nth_add_active remove_active_twice tab_classes_def Let_def del: map_map)
  next
    case (Some p)
    have "showTab nm t doc = add_active t (add_active p ?doc2)"
      using Some g by (simp add: showTab_def Let_def)
    then show ?thesis
      using assms Some n2 len2
      by (simp add: nth_add_active remove_active_twice tab_classes_def Let_def del: map_map)
  qed
qed

lemma tab_classes_other:
  "cls \<noteq> ''active'' \<Longrightarrow> cls \<in> set (tab_classes b1 b2 cs) \<longleftrightarrow> cls \<in> set cs"
  by (simp add: tab_classes_def Let_def classList_add_def classList_remove_def)

lemma tab_classes_active:
  "''active'' \<in> set (tab_classes b1 b2 cs) \<longleftrightarrow>
     b1 \<or> b2 \<or> (''active'' \<in> set cs \<and> ''tab-content'' \<notin> set cs \<and> ''tab-btn'' \<notin> set cs)"
  by (simp add: tab_classes_def Let_def classList_add_def classList_remove_def)

lemma count_add_fresh:
  "c \<notin> set cs \<Longrightarrow> count_list (classList_add c cs) c = 1
     \<and> count_list (classList_add c (classList_add c cs)) c = 1"
  by (simp add: classList_add_def)

lemma tab_classes_count:
  assumes "''tab-content'' \<in> set cs \<or> ''tab-btn'' \<in> set cs"
  shows "count_list (tab_classes b1 b2 cs) ''active'' \<le> Suc 0"
proof -
  have fresh: "''active'' \<notin> set (classList_remove ''active'' cs)"
    by (simp add: classList_remove_def)
  then have zero: "count_list (classList_remove ''active'' cs) ''active'' = 0" by simp
  show ?thesis
    using assms count_add_fresh [OF fresh] zero
    by (cases b1; cases b2) (simp_all add: tab_classes_def Let_def)
qed

lemma tab_classes_idem:
  assumes "b1 \<or> b2 \<longrightarrow> ''tab-content'' \<in> set cs \<or> ''tab-btn'' \<in> set cs"
  shows "tab_classes b1 b2 (tab_classes b1 b2 cs) = tab_classes b1 b2 cs"
proof (cases "''tab-content'' \<in> set cs \<or> ''tab-btn'' \<in> set cs")
  case True
  then show ?thesis
    by (cases b1; cases b2)
      (auto simp add: tab_classes_def Let_def classList_add_def classList_remove_def)
next
  case False
  then have "\<not> b1" "\<not> b2" using assms by auto
  then show ?thesis using False by (simp add: tab_classes_def Let_def)
qed

lemma showTab_ids: "map element_id (showTab nm t doc) = map element_id doc"
  by (rule nth_equalityI) (simp_all add: showTab_nth)

lemma showTab_on_tab:
  assumes t: "t < length doc"
    and tb: "''tab-btn'' \<in> set (element_classes (doc ! t))"
    and tnc: "''tab-content'' \<notin> set (element_classes (doc ! t))"
    and g: "getElementById (X @ ''-tab'') doc = Some p"
    and pc: "''tab-content'' \<in> set (element_classes (doc ! p))"
    and pnb: "''tab-btn'' \<notin> set (element_classes (doc ! p))"
  shows "active_of ''tab-content'' (showTab (Some X) t doc) = [p]"
    and "active_of ''tab-btn'' (showTab (Some X) t doc) = [t]"
    and "count_list (element_classes (showTab (Some X) t doc ! p)) ''active'' = 1"
    and "count_list (element_classes (showTab (Some X) t doc ! t)) ''active'' = 1"
    and "showTab (Some X) t (showTab (Some X) t doc) = showTab (Some X) t doc"
proof -
  let ?d = "showTab (Some X) t doc"
  have p: "p < length doc" using getElementById_Some [OF g] by simp
  have pt: "p \<noteq> t" using tnc pc by auto
  have nth: "?d ! i = (doc ! i)\<lparr>element_classes := tab_classes (i = p) (i = t) (element_classes (doc ! i))\<rparr>"
    if "i < length doc" for i
  proof -
    have "(Some p = Some i) = (i = p)" by auto
    then show ?thesis using that by (simp add: showTab_nth g)
  qed
  show "active_of ''tab-content'' ?d = [p]"
    unfolding active_of_def length_showTab
  proof (rule filter_upt_single [OF p])
    fix i assume "i < length doc"
    then show "(''tab-content'' \<in> set (element_classes (?d ! i)) \<and> ''active'' \<in> set (element_classes (?d ! i))) = (i = p)"
      using tnc pc by (auto simp add: nth tab_classes_other tab_classes_active)
  qed
  show "active_of ''tab-btn'' ?d = [t]"
    unfolding active_of_def length_showTab
  proof (rule filter_upt_single [OF t])
    fix i assume "i < length doc"
    then show "(''tab-btn'' \<in> set (element_classes (?d ! i)) \<and> ''active'' \<in> set (element_classes (?d ! i))) = (i = t)"
      using tb pnb by (auto simp add: nth tab_classes_other tab_classes_active)
  qed
  have le_p: "count_list (element_classes (?d ! p)) ''active'' \<le> 1"
    using p pc by (simp add: nth tab_classes_count)
  have "''active'' \<in> set (element_classes (?d ! p))"
    using p by (simp add: nth tab_classes_active)
  then have "count_list (element_classes (?d ! p)) ''active'' \<noteq> 0"
    using count_list_0_iff [of "element_classes (?d ! p)" "''active''"] by blast
  then show "count_list (element_classes (?d ! p)) ''active'' = 1" using le_p by simp
  have le_t: "count_list (element_classes (?d ! t)) ''active'' \<le> 1"
    using t tb by (simp add: nth tab_classes_count)
  have "''active'' \<in> set (element_classes (?d ! t))"
    using t by (simp add: nth tab_classes_active)
  then have "count_list (element_classes (?d ! t)) ''active'' \<noteq> 0"
    using count_list_0_iff [of "element_classes (?d ! t)" "''active''"] by blast
  then show "count_list (element_classes (?d ! t)) ''active'' = 1" using le_t by simp
  have g': "getElementById (X @ ''-tab'') ?d = Some p"
    using getElementById_same_ids [OF showTab_ids] g by simp
  show "showTab (Some X) t ?d = ?d"
  proof (rule nth_equalityI)
    show "length (showTab (Some X) t ?d) = length ?d" by simp
    fix i assume "i < length (showTab (Some X) t ?d)"
    then have i: "i < length doc" by simp
    have idem: "tab_classes (i = p) (i = t) (tab_classes (i = p) (i = t) (element_classes (doc ! i)))
        = tab_classes (i = p) (i = t) (element_classes (doc ! i))"
      by (rule tab_classes_idem) (use tb pc in auto)
    have "(Some p = Some i) = (i = p)" by auto
    then have "showTab (Some X) t ?d ! i =
        (?d ! i)\<lparr>element_classes := tab_classes (i = p) (i = t) (element_classes (?d ! i))\<rparr>"
      using i by (simp add: showTab_nth g')
    then show "showTab (Some X) t ?d ! i = ?d ! i"
      using i by (simp add: nth idem)
  qed
qed

text \<open>
  C8. Let the clicked element be a tab button (and no tab panel) with the attribute
  \<^verbatim>\<open>data-tab\<close> = \<open>X\<close>, and let the element with the id \<open>X\<close>\<^verbatim>\<open>-tab\<close> be a tab panel (and
  no tab button). After two clicks in a row the only active tab panel is that panel,
  the only active tab button is the clicked one, each of the two carries the class
  \<^verbatim>\<open>active\<close> exactly once, and the document is the same as after the first click.
\<close>

theorem tab_click_single_active:
  assumes "t < length doc"
    and "''tab-btn'' \<in> set (element_classes (doc ! t))"
    and "''tab-content'' \<notin> set (element_classes (doc ! t))"
    and "data_tab (doc ! t) = Some X"
    and "getElementById (X @ ''-tab'') doc = Some p"
    and "''tab-content'' \<in> set (element_classes (doc ! p))"
    and "''tab-btn'' \<notin> set (element_classes (doc ! p))"
  shows "active_of ''tab-content'' (tab_click t (tab_click t doc)) = [p]
    \<and> active_of ''tab-btn'' (tab_click t (tab_click t doc)) = [t]
    \<and> count_list (element_classes (tab_click t (tab_click t doc) ! p)) ''active'' = 1
    \<and> count_list (element_classes (tab_click t (tab_click t doc) ! t)) ''active'' = 1
    \<and> tab_click t (tab_click t doc) = tab_click t doc"
proof -
  let ?d = "showTab (Some X) t doc"
  note on = showTab_on_tab [OF assms(1,2,3,5,6,7)]
  have one: "tab_click t doc = ?d"
    using assms(1,2,4) by (simp add: tab_click_def)
  have "''tab-btn'' \<in> set (element_classes (?d ! t))"
    using assms(1,2) by (simp add: showTab_nth tab_classes_other)
  moreover have "data_tab (?d ! t) = Some X"
    using assms(1,4) by (simp add: showTab_nth)
  ultimately have "tab_click t ?d = showTab (Some X) t ?d"
    using assms(1) by (simp add: tab_click_def)
  then have two: "tab_click t (tab_click t doc) = ?d"
    using one on(5) by simp
  show ?thesis
    unfolding two using on(1,2,3,4) one by simp
qed

text \<open>Two tabs, the first active: two clicks on the second button.\<close>

theorem tab_click_single_active_witness:
  "active_of ''tab-content'' (tab_click 1 (tab_click 1 two_tabs)) = [3]
   \<and> active_of ''tab-btn'' (tab_click 1 (tab_click 1 two_tabs)) = [1]
   \<and> count_list (element_classes (tab_click 1 (tab_click 1 two_tabs) ! 3)) ''active'' = 1
   \<and> count_list (element_classes (tab_click 1 (tab_click 1 two_tabs) ! 1)) ''active'' = 1
   \<and> tab_click 1 (tab_click 1 two_tabs) = tab_click 1 two_tabs"
proof -
  have h1: "1 < length two_tabs" by (simp add: two_tabs_def)
  have h2: "''tab-btn'' \<in> set (element_classes (two_tabs ! 1))" by (simp add: two_tabs_def)
  have h3: "''tab-content'' \<notin> set (element_classes (two_tabs ! 1))" by (simp add: two_tabs_def)
  have h4: "data_tab (two_tabs ! 1) = Some ''tournament''" by (simp add: two_tabs_def)
  have h5: "getElementById (''tournament'' @ ''-tab'') two_tabs = Some 3" by code_simp
  have h6: "''tab-content'' \<in> set (element_classes (two_tabs ! 3))" by (simp add: two_tabs_def)
  have h7: "''tab-btn'' \<notin> set (element_classes (two_tabs ! 3))" by (simp add: two_tabs_def)
  show ?thesis by (rule tab_click_single_active [OF h1 h2 h3 h4 h5 h6 h7])
qed

end
